theory Spec2Isabelle
  imports Complex_Main "HOL-Library.AList"
begin

section \<open>Pose comparison and temporal smoothing\<close>

text \<open>
  A shallow embedding of \<^verbatim>\<open>utils/PoseComparison.ts\<close>, \<^verbatim>\<open>utils/LandmarkSmoother.ts\<close>
  and \<^verbatim>\<open>utils/ScoreSmoother.ts\<close>.

  Conventions of the embedding:
  \<^item> a JavaScript \<^verbatim>\<open>number\<close> is a \<^typ>\<open>real\<close>: the arithmetic is exact, and the IEEE
    values NaN and the infinities, rounding, and the sign of zero are not part of it;
  \<^item> a field the source reads through \<^verbatim>\<open>?? 0\<close> (\<^verbatim>\<open>z\<close>, \<^verbatim>\<open>visibility\<close>) is a
    \<^typ>\<open>real option\<close>, \<^term>\<open>None\<close> being \<^verbatim>\<open>undefined\<close>;
  \<^item> an array is a list, and an array read \<^verbatim>\<open>xs[i]\<close> is \<open>nth_opt\<close>, which is
    \<^term>\<open>None\<close> (\<^verbatim>\<open>undefined\<close>) out of range;
  \<^item> a \<^verbatim>\<open>Record<string, T>\<close> is an association list in insertion order of its keys:
    \<^verbatim>\<open>r[k]\<close> is \<^term>\<open>map_of r k\<close>, \<^verbatim>\<open>r[k] = v\<close> is \<^term>\<open>AList.update k v r\<close>
    (in place when the key exists, appended otherwise), \<^verbatim>\<open>Object.keys(r)\<close> is
    \<^term>\<open>map fst r\<close>. A JavaScript object has each key once. The keys here are region
    names: keys that look like array indices (which an object lists first) and
    properties inherited from the object prototype are not modelled;
  \<^item> an object with mutable fields is a record that each method takes and returns.
\<close>

subsection \<open>Data model\<close>

text \<open>\<^verbatim>\<open>NormalizedLandmark\<close> of the pose detector.\<close>

record NormalizedLandmark =
  x :: real
  y :: real
  z :: "real option"
  visibility :: "real option"

datatype Region = leftArm | rightArm | leftLeg | rightLeg | torso

record AngleComparison =
  name :: string
  refAngle :: real
  userAngle :: real
  diff :: real
  score :: real
  region :: Region

text \<open>The string that a \<^typ>\<open>Region\<close> is in the source, used as the key of a record.\<close>

fun region_key :: "Region \<Rightarrow> string" where
  "region_key leftArm = ''leftArm''"
| "region_key rightArm = ''rightArm''"
| "region_key leftLeg = ''leftLeg''"
| "region_key rightLeg = ''rightLeg''"
| "region_key torso = ''torso''"

record PoseComparisonResult =
  angles :: "AngleComparison list"
  overallScore :: real
  regionScores :: "(string \<times> real) list"

definition nth_opt :: "'a list \<Rightarrow> nat \<Rightarrow> 'a option" where
  "nth_opt xs i = (if i < length xs then Some (xs ! i) else None)"

text \<open>The operator \<^verbatim>\<open>v ?? d\<close>.\<close>

definition nullish :: "'a option \<Rightarrow> 'a \<Rightarrow> 'a" where
  "nullish v d = (case v of None \<Rightarrow> d | Some w \<Rightarrow> w)"

subsection \<open>Scoring an angular difference\<close>

definition scoreAngle :: "real \<Rightarrow> real" where
  "scoreAngle d =
     (if d < 15 then 1.0
      else if d < 30 then 1.0 - ((d - 15) / 15) * 0.5
      else if d < 60 then 0.5 - ((d - 30) / 30) * 0.5
      else 0.0)"

subsection \<open>Joint angles\<close>

text \<open>The object literal \<^verbatim>\<open>{ x: a.x - b.x, y: a.y - b.y, z: (a.z ?? 0) - (b.z ?? 0) }\<close>.\<close>

definition ray :: "NormalizedLandmark \<Rightarrow> NormalizedLandmark \<Rightarrow> real \<times> real \<times> real" where
  "ray a b = (x a - x b, y a - y b, nullish (z a) 0 - nullish (z b) 0)"

text \<open>\<^verbatim>\<open>Math.sqrt(v.x ** 2 + v.y ** 2 + v.z ** 2)\<close>.\<close>

fun magnitude :: "real \<times> real \<times> real \<Rightarrow> real" where
  "magnitude (vx, vy, vz) = sqrt (vx ^ 2 + vy ^ 2 + vz ^ 2)"

fun dot_product :: "real \<times> real \<times> real \<Rightarrow> real \<times> real \<times> real \<Rightarrow> real" where
  "dot_product (ux, uy, uz) (vx, vy, vz) = ux * vx + uy * vy + uz * vz"

text \<open>The clamped quotient \<^verbatim>\<open>Math.max(-1, Math.min(1, dot / (magBA * magBC)))\<close>.\<close>

definition cosAngle :: "real \<Rightarrow> real \<Rightarrow> real \<Rightarrow> real" where
  "cosAngle dot magBA magBC = max (- 1) (min 1 (dot / (magBA * magBC)))"

definition calculateAngle ::
  "NormalizedLandmark \<Rightarrow> NormalizedLandmark \<Rightarrow> NormalizedLandmark \<Rightarrow> real" where
  "calculateAngle a b c =
     (let ba = ray a b;
          bc = ray c b;
          dot = dot_product ba bc;
          magBA = magnitude ba;
          magBC = magnitude bc
      in if magBA = 0 \<or> magBC = 0 then 0
         else (arccos (cosAngle dot magBA magBC) * 180) / pi)"

text \<open>
  \<^verbatim>\<open>Math.atan2(v, u)\<close> on the reals, away from the origin. At \<open>v = 0\<close>, \<open>u = 0\<close> the IEEE
  result depends on the signs of the two zeros, which a real number does not have; the
  caller below decides that case.
\<close>

definition atan2 :: "real \<Rightarrow> real \<Rightarrow> real" where
  "atan2 v u =
     (if 0 < u then arctan (v / u)
      else if u < 0 then (if 0 \<le> v then arctan (v / u) + pi else arctan (v / u) - pi)
      else if 0 < v then pi / 2
      else if v < 0 then - (pi / 2)
      else 0)"

text \<open>
  Torso lean: the angle between the vertical and the line from the middle of the hips to
  the middle of the shoulders. An index beyond the array reads \<^verbatim>\<open>undefined\<close>, and the
  function returns 0 then.

  When the two midpoints coincide, \<^verbatim>\<open>dy\<close> is the zero \<^verbatim>\<open>+0\<close> of a floating-point
  subtraction of equal values, the second argument \<^verbatim>\<open>-dy\<close> is \<^verbatim>\<open>-0\<close>, and
  \<^verbatim>\<open>Math.atan2(\<plusminus>0, -0)\<close> is \<open>\<plusminus>\<pi>\<close>: the source returns 180 there. The model
  writes that case out, since the reals have one zero only.
\<close>

definition calculateTorsoLean :: "NormalizedLandmark list \<Rightarrow> real" where
  "calculateTorsoLean landmarks =
     (case (nth_opt landmarks 11, nth_opt landmarks 12, nth_opt landmarks 23, nth_opt landmarks 24) of
        (Some lShoulder, Some rShoulder, Some lHip, Some rHip) \<Rightarrow>
          (let midShoulderX = (x lShoulder + x rShoulder) / 2;
               midShoulderY = (y lShoulder + y rShoulder) / 2;
               midHipX = (x lHip + x rHip) / 2;
               midHipY = (y lHip + y rHip) / 2;
               dx = midShoulderX - midHipX;
               dy = midShoulderY - midHipY
           in if dx = 0 \<and> dy = 0 then 180
              else \<bar>atan2 dx (- dy) * (180 / pi)\<bar>)
      | _ \<Rightarrow> 0)"

text \<open>The catalog: name, landmark indices A, B, C, region.\<close>

definition ANGLE_DEFINITIONS :: "(string \<times> (nat \<times> nat \<times> nat) \<times> Region) list" where
  "ANGLE_DEFINITIONS =
     [(''Left Elbow'', (11, 13, 15), leftArm),
      (''Right Elbow'', (12, 14, 16), rightArm),
      (''Left Shoulder'', (13, 11, 23), leftArm),
      (''Right Shoulder'', (14, 12, 24), rightArm),
      (''Left Knee'', (23, 25, 27), leftLeg),
      (''Right Knee'', (24, 26, 28), rightLeg),
      (''Left Hip'', (11, 23, 25), leftLeg),
      (''Right Hip'', (12, 24, 26), rightLeg)]"

definition MIN_VISIBILITY :: real where
  "MIN_VISIBILITY = 0.5"

definition landmarkVisible :: "NormalizedLandmark option \<Rightarrow> bool" where
  "landmarkVisible lm =
     (case lm of None \<Rightarrow> False | Some l \<Rightarrow> MIN_VISIBILITY \<le> nullish (visibility l) 0)"

subsection \<open>Comparing two poses\<close>

text \<open>
  The six landmarks of an angle are visible in both sets: the negation of the test that
  skips an angle in the loop below.
\<close>

definition allVisible ::
  "NormalizedLandmark list \<Rightarrow> NormalizedLandmark list \<Rightarrow> nat \<Rightarrow> nat \<Rightarrow> nat \<Rightarrow> bool" where
  "allVisible refLandmarks userLandmarks a b c \<longleftrightarrow>
     landmarkVisible (nth_opt refLandmarks a) \<and> landmarkVisible (nth_opt refLandmarks b) \<and>
     landmarkVisible (nth_opt refLandmarks c) \<and> landmarkVisible (nth_opt userLandmarks a) \<and>
     landmarkVisible (nth_opt userLandmarks b) \<and> landmarkVisible (nth_opt userLandmarks c)"

text \<open>
  The body of the loop over the catalog: \<^term>\<open>None\<close> is \<^verbatim>\<open>continue\<close>, \<open>Some\<close> is the
  entry that is pushed. After the visibility test each of the six reads is a landmark
  (\<open>landmarkVisible\<close> is false on \<^verbatim>\<open>undefined\<close>), so \<^term>\<open>the\<close> is applied to \<open>Some\<close> only.
\<close>

fun compareAngle ::
  "NormalizedLandmark list \<Rightarrow> NormalizedLandmark list \<Rightarrow>
   string \<times> (nat \<times> nat \<times> nat) \<times> Region \<Rightarrow> AngleComparison option" where
  "compareAngle refLandmarks userLandmarks (def_name, (a, b, c), def_region) =
     (let refA = nth_opt refLandmarks a;
          refB = nth_opt refLandmarks b;
          refC = nth_opt refLandmarks c;
          userA = nth_opt userLandmarks a;
          userB = nth_opt userLandmarks b;
          userC = nth_opt userLandmarks c
      in if \<not> landmarkVisible refA \<or> \<not> landmarkVisible refB \<or> \<not> landmarkVisible refC \<or>
            \<not> landmarkVisible userA \<or> \<not> landmarkVisible userB \<or> \<not> landmarkVisible userC
         then None
         else (let refAngle' = calculateAngle (the refA) (the refB) (the refC);
                   userAngle' = calculateAngle (the userA) (the userB) (the userC);
                   diff' = \<bar>refAngle' - userAngle'\<bar>
               in Some \<lparr>name = def_name, refAngle = refAngle', userAngle = userAngle',
                         diff = diff', score = scoreAngle diff', region = def_region\<rparr>))"

text \<open>The loop \<^verbatim>\<open>for (const def of ANGLE_DEFINITIONS)\<close>, pushing onto \<^verbatim>\<open>angles\<close>.\<close>

definition jointAngles ::
  "NormalizedLandmark list \<Rightarrow> NormalizedLandmark list \<Rightarrow> AngleComparison list" where
  "jointAngles refLandmarks userLandmarks =
     fold (\<lambda>d acc. case compareAngle refLandmarks userLandmarks d of
                      None \<Rightarrow> acc
                    | Some cmp \<Rightarrow> acc @ [cmp])
          ANGLE_DEFINITIONS []"

text \<open>The torso-lean entry, pushed after the loop.\<close>

definition torsoLean ::
  "NormalizedLandmark list \<Rightarrow> NormalizedLandmark list \<Rightarrow> AngleComparison" where
  "torsoLean refLandmarks userLandmarks =
     (let refLean = calculateTorsoLean refLandmarks;
          userLean = calculateTorsoLean userLandmarks;
          leanDiff = \<bar>refLean - userLean\<bar>
      in \<lparr>name = ''Torso Lean'', refAngle = refLean, userAngle = userLean,
           diff = leanDiff, score = scoreAngle leanDiff, region = torso\<rparr>)"

text \<open>
  One step of the loop that fills \<^verbatim>\<open>regionBuckets\<close>: create the bucket of the region when
  there is none, then push the score onto it.
\<close>

definition pushScore ::
  "AngleComparison \<Rightarrow> (string \<times> real list) list \<Rightarrow> (string \<times> real list) list" where
  "pushScore a regionBuckets =
     (let k = region_key (region a);
          buckets = (if map_of regionBuckets k = None
                     then AList.update k [] regionBuckets else regionBuckets)
      in AList.update k (the (map_of buckets k) @ [score a]) buckets)"

definition regionBucketsOf :: "AngleComparison list \<Rightarrow> (string \<times> real list) list" where
  "regionBucketsOf as = fold pushScore as []"

text \<open>\<^verbatim>\<open>scores.reduce((sum, s) => sum + s, 0) / scores.length\<close> for each bucket.\<close>

definition regionScoresOf :: "(string \<times> real list) list \<Rightarrow> (string \<times> real) list" where
  "regionScoresOf regionBuckets =
     fold (\<lambda>(k, scores) acc. AList.update k (foldl (\<lambda>sum s. sum + s) 0 scores / real (length scores)) acc)
          regionBuckets []"

text \<open>
  The end of \<^verbatim>\<open>comparePoses\<close>, from the test \<^verbatim>\<open>angles.length === 0\<close> on: the
  aggregation of a list of angle comparisons.
\<close>

definition aggregate :: "AngleComparison list \<Rightarrow> PoseComparisonResult option" where
  "aggregate as =
     (if length as = 0 then None
      else Some \<lparr>angles = as,
                 overallScore = (foldl (\<lambda>sum a. sum + score a) 0 as / real (length as)) * 100,
                 regionScores = regionScoresOf (regionBucketsOf as)\<rparr>)"

definition comparePoses ::
  "NormalizedLandmark list \<Rightarrow> NormalizedLandmark list \<Rightarrow> PoseComparisonResult option" where
  "comparePoses refLandmarks userLandmarks =
     (if length refLandmarks < 33 \<or> length userLandmarks < 33 then None
      else aggregate (jointAngles refLandmarks userLandmarks @ [torsoLean refLandmarks userLandmarks]))"

subsection \<open>The positional smoother\<close>

record LandmarkSmoother =
  previous :: "NormalizedLandmark list option"
  alpha :: real

text \<open>\<^verbatim>\<open>new LandmarkSmoother(a)\<close>; the parameter defaults to 0.35 when it is not given.\<close>

definition newLandmarkSmoother :: "real option \<Rightarrow> LandmarkSmoother" where
  "newLandmarkSmoother a = \<lparr>previous = None, alpha = nullish a 0.35\<rparr>"

text \<open>
  \<^verbatim>\<open>alpha * u + (1 - alpha) * v\<close> on a coordinate that may be absent: with an absent
  operand the source computes no number, and the model keeps \<^term>\<open>None\<close>.
\<close>

fun lerp_opt :: "real \<Rightarrow> real option \<Rightarrow> real option \<Rightarrow> real option" where
  "lerp_opt al (Some u) (Some v) = Some (al * u + (1 - al) * v)"
| "lerp_opt al _ _ = None"

definition smooth ::
  "LandmarkSmoother \<Rightarrow> NormalizedLandmark list \<Rightarrow> NormalizedLandmark list \<times> LandmarkSmoother" where
  "smooth s landmarks =
     (case previous s of
        None \<Rightarrow> (landmarks, s\<lparr>previous := Some landmarks\<rparr>)
      | Some prevs \<Rightarrow>
          if length prevs \<noteq> length landmarks
          then (landmarks, s\<lparr>previous := Some landmarks\<rparr>)
          else (let smoothed =
                      map (\<lambda>(lm, i).
                             let prev = prevs ! i
                             in \<lparr>x = LandmarkSmoother.alpha s * x lm + (1 - LandmarkSmoother.alpha s) * x prev,
                                 y = LandmarkSmoother.alpha s * y lm + (1 - LandmarkSmoother.alpha s) * y prev,
                                 z = lerp_opt (LandmarkSmoother.alpha s) (z lm) (z prev),
                                 visibility = visibility lm\<rparr>)
                          (zip landmarks [0 ..< length landmarks])
                in (smoothed, s\<lparr>previous := Some smoothed\<rparr>)))"

definition reset :: "LandmarkSmoother \<Rightarrow> LandmarkSmoother" where
  "reset s = s\<lparr>previous := None\<rparr>"

subsection \<open>The score smoother\<close>

record ScoreSmoother =
  smoothedRegions :: "(string \<times> real) list"
  smoothedOverall :: real
  hasData :: bool
  alpha :: real

record SmoothedScores =
  regions :: "(string \<times> real) list"
  overall :: real

text \<open>\<^verbatim>\<open>new ScoreSmoother(a)\<close>; the parameter defaults to 0.12 when it is not given.\<close>

definition newScoreSmoother :: "real option \<Rightarrow> ScoreSmoother" where
  "newScoreSmoother a =
     \<lparr>smoothedRegions = [], smoothedOverall = 0, hasData = False, alpha = nullish a 0.12\<rparr>"

text \<open>One step of the loop over \<^verbatim>\<open>Object.keys(regionScores)\<close>.\<close>

definition blendKey ::
  "real \<Rightarrow> (string \<times> real) list \<Rightarrow> string \<Rightarrow> (string \<times> real) list \<Rightarrow> (string \<times> real) list" where
  "blendKey al incoming key smoothed =
     (let prev = nullish (map_of smoothed key) (the (map_of incoming key))
      in AList.update key (al * the (map_of incoming key) + (1 - al) * prev) smoothed)"

definition update ::
  "ScoreSmoother \<Rightarrow> (string \<times> real) list \<Rightarrow> real \<Rightarrow> SmoothedScores \<times> ScoreSmoother" where
  "update s incoming incomingOverall =
     (let s' = (if \<not> hasData s
                then s\<lparr>smoothedRegions := incoming, smoothedOverall := incomingOverall,
                       hasData := True\<rparr>
                else s\<lparr>smoothedRegions :=
                         fold (blendKey (alpha s) incoming) (map fst incoming) (smoothedRegions s),
                       smoothedOverall :=
                         alpha s * incomingOverall + (1 - alpha s) * smoothedOverall s\<rparr>)
      in (\<lparr>regions = smoothedRegions s', overall = smoothedOverall s'\<rparr>, s'))"

definition resetScores :: "ScoreSmoother \<Rightarrow> ScoreSmoother" where
  "resetScores s = s\<lparr>smoothedRegions := [], smoothedOverall := 0, hasData := False\<rparr>"

subsection \<open>Example inputs\<close>

text \<open>
  A 33-point set standing upright: the points 0 to 22 (the shoulders 11 and 12 among them)
  at \<open>(0.5, 0.3, 0)\<close>, the points 23 to 32 (the hips 23 and 24 among them) at
  \<open>(0.5, 0.6, 0)\<close>, every point with the visibility \<open>vis\<close>. The shoulders are straight
  above the hips, so the torso lean is 0 degrees.
\<close>

definition uprightPose :: "real option \<Rightarrow> NormalizedLandmark list" where
  "uprightPose vis =
     replicate 23 \<lparr>x = 0.5, y = 0.3, z = Some 0, visibility = vis\<rparr>
     @ replicate 10 \<lparr>x = 0.5, y = 0.6, z = Some 0, visibility = vis\<rparr>"

text \<open>The comparison that \<open>torsoLean\<close> gives on two upright sets: no lean on either side.\<close>

definition uprightTorso :: AngleComparison where
  "uprightTorso =
     \<lparr>name = ''Torso Lean'', refAngle = 0, userAngle = 0, diff = 0, score = 1, region = torso\<rparr>"

text \<open>
  The comparison of an angle that is 0 degrees on both sides, and the result of comparing
  the fully visible upright set with itself: the three landmarks of every catalog angle
  have two coincident points, so each angle is 0 on both sides and scores 1.
\<close>

definition matched :: "string \<Rightarrow> Region \<Rightarrow> AngleComparison" where
  "matched n reg = \<lparr>name = n, refAngle = 0, userAngle = 0, diff = 0, score = 1, region = reg\<rparr>"

definition uprightResult :: PoseComparisonResult where
  "uprightResult =
     \<lparr>angles = [matched ''Left Elbow'' leftArm, matched ''Right Elbow'' rightArm,
                matched ''Left Shoulder'' leftArm, matched ''Right Shoulder'' rightArm,
                matched ''Left Knee'' leftLeg, matched ''Right Knee'' rightLeg,
                matched ''Left Hip'' leftLeg, matched ''Right Hip'' rightLeg,
                matched ''Torso Lean'' torso],
      overallScore = 100,
      regionScores = [(''leftArm'', 1), (''rightArm'', 1), (''leftLeg'', 1), (''rightLeg'', 1),
                      (''torso'', 1)]\<rparr>"

text \<open>A 34th landmark, appended to a set to make it too long.\<close>

definition extraLandmark :: NormalizedLandmark where
  "extraLandmark = \<lparr>x = 0, y = 0, z = None, visibility = None\<rparr>"

text \<open>Two landmarks of a one-point set, for the positional smoother.\<close>

definition pointA :: NormalizedLandmark where
  "pointA = \<lparr>x = 0, y = 0, z = Some 1, visibility = Some 0.1\<rparr>"

definition pointB :: NormalizedLandmark where
  "pointB = \<lparr>x = 1, y = 2, z = Some 3, visibility = Some 0.9\<rparr>"

text \<open>
  A primed score smoother with \<open>\<alpha> = 0.5\<close> that holds the torso at 1, the left arm at
  0.5 and the overall score 80.
\<close>

definition primedSmoother :: ScoreSmoother where
  "primedSmoother =
     \<lparr>smoothedRegions = [(''torso'', 1), (''leftArm'', 0.5)], smoothedOverall = 80,
      hasData = True, alpha = 0.5\<rparr>"

text \<open>Three scored angles: two of the left arm (scores 1 and 0.5), one of the torso (score 0).\<close>

definition threeAngles :: "AngleComparison list" where
  "threeAngles =
     [\<lparr>name = ''Left Elbow'', refAngle = 90, userAngle = 90, diff = 0, score = 1, region = leftArm\<rparr>,
      \<lparr>name = ''Left Shoulder'', refAngle = 90, userAngle = 120, diff = 30, score = 0.5, region = leftArm\<rparr>,
      \<lparr>name = ''Torso Lean'', refAngle = 0, userAngle = 60, diff = 60, score = 0, region = torso\<rparr>]"

section \<open>Properties\<close>

declare compareAngle.simps [simp del]

subsection \<open>The scoring curve\<close>

lemma scoreAngle_range: "0 \<le> scoreAngle d \<and> scoreAngle d \<le> 1"
  unfolding scoreAngle_def by (auto simp: field_simps)

lemma scoreAngle_antimono: "d \<le> e \<Longrightarrow> scoreAngle e \<le> scoreAngle d"
  unfolding scoreAngle_def by (auto simp: field_simps)

text \<open>
  Claim C1. For every real \<open>d\<close> (in particular every non-negative one) \<open>scoreAngle d\<close> is
  \<open>1\<close> below 15, falls linearly from \<open>1\<close> to \<open>0.5\<close> on \<open>[15, 30)\<close>, linearly from \<open>0.5\<close> to
  \<open>0\<close> on \<open>[30, 60)\<close>, and is \<open>0\<close> from 60 on; the values at 0, 15, 30 and 60 are
  \<open>1\<close>, \<open>1\<close>, \<open>0.5\<close> and \<open>0\<close>; the result lies in \<open>[0, 1]\<close>; and the function, which is
  total, does not increase when its argument grows.
\<close>

theorem scoreAngle_curve:
  fixes d e :: real
  shows "(d < 15 \<longrightarrow> scoreAngle d = 1)
       \<and> (15 \<le> d \<and> d < 30 \<longrightarrow> scoreAngle d = 1 + (d - 15) / (30 - 15) * (0.5 - 1))
       \<and> (30 \<le> d \<and> d < 60 \<longrightarrow> scoreAngle d = 0.5 + (d - 30) / (60 - 30) * (0 - 0.5))
       \<and> (60 \<le> d \<longrightarrow> scoreAngle d = 0)
       \<and> scoreAngle 0 = 1 \<and> scoreAngle 15 = 1 \<and> scoreAngle 30 = 0.5 \<and> scoreAngle 60 = 0
       \<and> 0 \<le> scoreAngle d \<and> scoreAngle d \<le> 1
       \<and> (d \<le> e \<longrightarrow> scoreAngle e \<le> scoreAngle d)"
proof -
  have at_points: "scoreAngle 0 = 1" "scoreAngle 15 = 1" "scoreAngle 30 = 0.5" "scoreAngle 60 = 0"
    by (simp_all add: scoreAngle_def)
  have pieces: "d < 15 \<longrightarrow> scoreAngle d = 1"
    "15 \<le> d \<and> d < 30 \<longrightarrow> scoreAngle d = 1 + (d - 15) / (30 - 15) * (0.5 - 1)"
    "30 \<le> d \<and> d < 60 \<longrightarrow> scoreAngle d = 0.5 + (d - 30) / (60 - 30) * (0 - 0.5)"
    "60 \<le> d \<longrightarrow> scoreAngle d = 0"
    by (simp_all add: scoreAngle_def)
  from at_points pieces scoreAngle_range [of d] scoreAngle_antimono [of d e]
  show ?thesis by blast
qed

theorem scoreAngle_curve_witness:
  "scoreAngle 10 = 1 \<and> scoreAngle 20 = 5 / 6 \<and> scoreAngle 45 = 1 / 4 \<and> scoreAngle 75 = 0
   \<and> scoreAngle 45 \<le> scoreAngle 20"
  using scoreAngle_curve [of 10 10] scoreAngle_curve [of 20 45]
    scoreAngle_curve [of 45 45] scoreAngle_curve [of 75 75]
  by simp


subsection \<open>Joint angles\<close>

lemma magnitude_zero_iff: "magnitude (a, b, c) = 0 \<longleftrightarrow> a = 0 \<and> b = 0 \<and> c = 0"
proof -
  have "a\<^sup>2 + b\<^sup>2 + c\<^sup>2 = 0 \<longleftrightarrow> a = 0 \<and> b = 0 \<and> c = 0"
    by (metis add_nonneg_eq_0_iff add_nonneg_nonneg zero_le_power2 zero_eq_power2
        power_zero_numeral add.right_neutral)
  then show ?thesis by simp
qed

lemma ray_magnitude_zero_iff:
  "magnitude (ray a b) = 0 \<longleftrightarrow> x a = x b \<and> y a = y b \<and> nullish (z a) 0 = nullish (z b) 0"
  by (simp add: ray_def magnitude_zero_iff del: magnitude.simps)

lemma cosAngle_range: "- 1 \<le> cosAngle d m n \<and> cosAngle d m n \<le> 1"
  by (simp add: cosAngle_def)

lemma calculateAngle_range: "0 \<le> calculateAngle a b c \<and> calculateAngle a b c \<le> 180"
proof -
  have "0 \<le> arccos v * 180 / pi \<and> arccos v * 180 / pi \<le> 180" if "- 1 \<le> v" "v \<le> 1" for v
  proof -
    from that have "0 \<le> arccos v" "arccos v \<le> pi"
      by (simp_all add: arccos_lbound arccos_ubound)
    then show ?thesis by (simp add: field_simps)
  qed
  then show ?thesis
    using cosAngle_range by (simp add: calculateAngle_def Let_def)
qed

text \<open>
  Claim C9. For all points A, B, C: if the ray from B to A or the ray from B to C has
  magnitude zero, which is the case exactly when the two points coincide, the angle is 0
  degrees. Otherwise the divisor \<open>magBA * magBC\<close> is not zero and the angle is the
  arccosine of the clamped quotient, in degrees. The argument of the arccosine always
  lies in \<open>[-1, 1]\<close>, and the angle always is a number between 0 and 180: every
  operation of the computation is applied inside its domain.
\<close>

theorem calculateAngle_degenerate:
  "(magnitude (ray a b) = 0 \<or> magnitude (ray c b) = 0 \<longrightarrow> calculateAngle a b c = 0)
   \<and> (magnitude (ray a b) = 0 \<longleftrightarrow> x a = x b \<and> y a = y b \<and> nullish (z a) 0 = nullish (z b) 0)
   \<and> (magnitude (ray c b) = 0 \<longleftrightarrow> x c = x b \<and> y c = y b \<and> nullish (z c) 0 = nullish (z b) 0)
   \<and> (magnitude (ray a b) \<noteq> 0 \<and> magnitude (ray c b) \<noteq> 0 \<longrightarrow>
        magnitude (ray a b) * magnitude (ray c b) \<noteq> 0
        \<and> calculateAngle a b c =
            arccos (cosAngle (dot_product (ray a b) (ray c b))
                      (magnitude (ray a b)) (magnitude (ray c b))) * 180 / pi)
   \<and> - 1 \<le> cosAngle (dot_product (ray a b) (ray c b)) (magnitude (ray a b)) (magnitude (ray c b))
   \<and> cosAngle (dot_product (ray a b) (ray c b)) (magnitude (ray a b)) (magnitude (ray c b)) \<le> 1
   \<and> 0 \<le> calculateAngle a b c \<and> calculateAngle a b c \<le> 180"
proof -
  have deg: "magnitude (ray a b) = 0 \<or> magnitude (ray c b) = 0 \<longrightarrow> calculateAngle a b c = 0"
    by (auto simp: calculateAngle_def Let_def)
  have nondeg: "magnitude (ray a b) \<noteq> 0 \<and> magnitude (ray c b) \<noteq> 0 \<longrightarrow>
        magnitude (ray a b) * magnitude (ray c b) \<noteq> 0
        \<and> calculateAngle a b c =
            arccos (cosAngle (dot_product (ray a b) (ray c b))
                      (magnitude (ray a b)) (magnitude (ray c b))) * 180 / pi"
    by (auto simp: calculateAngle_def Let_def)
  from deg nondeg ray_magnitude_zero_iff [of a b] ray_magnitude_zero_iff [of c b]
    cosAngle_range calculateAngle_range [of a b c]
  show ?thesis by blast
qed

text \<open>
  At A = B (with an absent \<open>z\<close> read as 0) the angle is 0; the rays along the two axes
  make 90 degrees.
\<close>

theorem calculateAngle_degenerate_witness:
  "calculateAngle \<lparr>x = 0.5, y = 0.3, z = None, visibility = Some 1\<rparr>
                  \<lparr>x = 0.5, y = 0.3, z = Some 0, visibility = Some 1\<rparr>
                  \<lparr>x = 0.7, y = 0.3, z = Some 0, visibility = Some 1\<rparr> = 0
   \<and> calculateAngle \<lparr>x = 1, y = 0, z = None, visibility = None\<rparr>
                  \<lparr>x = 0, y = 0, z = None, visibility = None\<rparr>
                  \<lparr>x = 0, y = 1, z = None, visibility = None\<rparr> = 90"
  using calculateAngle_degenerate
          [of "\<lparr>x = 0.5, y = 0.3, z = None, visibility = Some 1\<rparr>"
              "\<lparr>x = 0.5, y = 0.3, z = Some 0, visibility = Some 1\<rparr>"
              "\<lparr>x = 0.7, y = 0.3, z = Some 0, visibility = Some 1\<rparr>"]
        calculateAngle_degenerate
          [of "\<lparr>x = 1, y = 0, z = None, visibility = None\<rparr>"
              "\<lparr>x = 0, y = 0, z = None, visibility = None\<rparr>"
              "\<lparr>x = 0, y = 1, z = None, visibility = None\<rparr>"]
  by (simp add: ray_def nullish_def cosAngle_def)

subsection \<open>Aggregation by region\<close>

lemma foldl_plus_sum_list: "foldl (\<lambda>sum s. sum + s) (c::real) xs = c + sum_list xs"
  by (induction xs arbitrary: c) auto

lemma foldl_score_sum_list:
  "foldl (\<lambda>sum a. sum + score a) (c::real) xs = c + sum_list (map score xs)"
  by (induction xs arbitrary: c) auto

lemma pushScore_map_of:
  "map_of (pushScore a rb) k =
     (if region_key (region a) = k
      then Some ((case map_of rb k of None \<Rightarrow> [] | Some s \<Rightarrow> s) @ [score a])
      else map_of rb k)"
  by (auto simp: pushScore_def Let_def update_conv' split: option.splits)

lemma pushScore_distinct: "distinct (map fst rb) \<Longrightarrow> distinct (map fst (pushScore a rb))"
  by (simp add: pushScore_def Let_def distinct_update)

lemma fold_pushScore_distinct:
  "distinct (map fst rb) \<Longrightarrow> distinct (map fst (fold pushScore as rb))"
  by (induction as arbitrary: rb) (auto simp: pushScore_distinct)

lemma fold_pushScore_map_of:
  "map_of (fold pushScore as rb) k =
     (if filter (\<lambda>a. region_key (region a) = k) as = [] then map_of rb k
      else Some ((case map_of rb k of None \<Rightarrow> [] | Some s \<Rightarrow> s)
                 @ map score (filter (\<lambda>a. region_key (region a) = k) as)))"
proof (induction as arbitrary: rb)
  case Nil
  then show ?case by simp
next
  case (Cons a as)
  show ?case
    by (simp add: Cons.IH pushScore_map_of)
qed

lemma fold_mean_map_of:
  "distinct (map fst bs) \<Longrightarrow>
   map_of (fold (\<lambda>(k, scores) acc. AList.update k (f scores) acc) bs acc) k =
     (case map_of bs k of Some s \<Rightarrow> Some (f s) | None \<Rightarrow> map_of acc k)"
proof (induction bs arbitrary: acc)
  case Nil
  then show ?case by simp
next
  case (Cons b bs)
  obtain k' s' where b: "b = (k', s')" by (cases b)
  from Cons.prems b have nin: "k' \<notin> fst ` set bs" and d: "distinct (map fst bs)" by auto
  from nin have "map_of bs k' = None" by (simp add: map_of_eq_None_iff)
  with Cons.IH [OF d] b show ?case
    by (auto simp: update_conv' split: option.splits)
qed

lemma region_key_inj: "region_key r = region_key r' \<longleftrightarrow> r = r'"
  by (cases r; cases r'; simp)

lemma regionScores_map_of:
  "map_of (regionScoresOf (regionBucketsOf as)) k =
     (if filter (\<lambda>a. region_key (region a) = k) as = [] then None
      else Some (sum_list (map score (filter (\<lambda>a. region_key (region a) = k) as))
                 / real (length (filter (\<lambda>a. region_key (region a) = k) as))))"
proof -
  have d: "distinct (map fst (regionBucketsOf as))"
    unfolding regionBucketsOf_def by (rule fold_pushScore_distinct) simp
  have "map_of (regionScoresOf (regionBucketsOf as)) k =
          (case map_of (regionBucketsOf as) k of
             Some s \<Rightarrow> Some (foldl (\<lambda>sum s. sum + s) 0 s / real (length s))
           | None \<Rightarrow> map_of [] k)"
    unfolding regionScoresOf_def by (rule fold_mean_map_of [OF d])
  also have "map_of (regionBucketsOf as) k =
          (if filter (\<lambda>a. region_key (region a) = k) as = [] then None
           else Some (map score (filter (\<lambda>a. region_key (region a) = k) as)))"
    by (simp add: regionBucketsOf_def fold_pushScore_map_of)
  finally show ?thesis
    by (simp add: foldl_plus_sum_list)
qed

lemma comparePoses_Some:
  "33 \<le> length r \<Longrightarrow> 33 \<le> length u \<Longrightarrow>
   comparePoses r u = Some \<lparr>angles = jointAngles r u @ [torsoLean r u],
      overallScore = sum_list (map score (jointAngles r u @ [torsoLean r u]))
                     / real (length (jointAngles r u @ [torsoLean r u])) * 100,
      regionScores = regionScoresOf (regionBucketsOf (jointAngles r u @ [torsoLean r u]))\<rparr>"
  by (simp add: comparePoses_def aggregate_def foldl_score_sum_list)

lemma comparePoses_None_iff:
  "comparePoses r u = None \<longleftrightarrow> length r < 33 \<or> length u < 33"
  by (auto simp: comparePoses_def aggregate_def)

lemma torsoLean_fields:
  "name (torsoLean r u) = ''Torso Lean''" "region (torsoLean r u) = torso"
  by (simp_all add: torsoLean_def Let_def)

text \<open>
  Claim C5. For every non-empty list of angle comparisons the aggregation gives a result
  that holds the list itself; its \<open>regionScores\<close> maps the key of each region that has at
  least one angle in the list to the arithmetic mean of the scores of those angles, and
  has no entry for a region without an angle, nor for any other key; its \<open>overallScore\<close> is
  the arithmetic mean of the scores of all the angles, times 100. Every result of
  \<open>comparePoses\<close> is the aggregation of its own, non-empty, list of angles.
\<close>

theorem aggregate_means:
  "(as \<noteq> [] \<longrightarrow>
      (\<exists>res. aggregate as = Some res \<and> angles res = as
         \<and> (\<forall>r. map_of (regionScores res) (region_key r) =
                  (if filter (\<lambda>a. region a = r) as = [] then None
                   else Some (sum_list (map score (filter (\<lambda>a. region a = r) as))
                              / real (length (filter (\<lambda>a. region a = r) as)))))
         \<and> (\<forall>k. k \<notin> range region_key \<longrightarrow> map_of (regionScores res) k = None)
         \<and> overallScore res = sum_list (map score as) / real (length as) * 100))
   \<and> (comparePoses r u = Some res' \<longrightarrow> angles res' \<noteq> [] \<and> aggregate (angles res') = Some res')"
proof (intro conjI impI)
  assume ne: "as \<noteq> []"
  let ?res = "\<lparr>angles = as,
      overallScore = (foldl (\<lambda>sum a. sum + score a) 0 as / real (length as)) * 100,
      regionScores = regionScoresOf (regionBucketsOf as)\<rparr>"
  have agg: "aggregate as = Some ?res" using ne by (simp add: aggregate_def)
  have reg: "map_of (regionScores ?res) (region_key r) =
                  (if filter (\<lambda>a. region a = r) as = [] then None
                   else Some (sum_list (map score (filter (\<lambda>a. region a = r) as))
                              / real (length (filter (\<lambda>a. region a = r) as))))" for r
    by (simp add: regionScores_map_of region_key_inj)
  have other: "k \<notin> range region_key \<longrightarrow> map_of (regionScores ?res) k = None" for k
  proof
    assume k: "k \<notin> range region_key"
    then have "filter (\<lambda>a. region_key (region a) = k) as = []"
      by (auto simp: filter_empty_conv)
    then show "map_of (regionScores ?res) k = None"
      by (simp add: regionScores_map_of)
  qed
  have ov: "overallScore ?res = sum_list (map score as) / real (length as) * 100"
    by (simp add: foldl_score_sum_list)
  have ang: "angles ?res = as" by simp
  from agg ang reg other ov
  show "\<exists>res. aggregate as = Some res \<and> angles res = as
         \<and> (\<forall>r. map_of (regionScores res) (region_key r) =
                  (if filter (\<lambda>a. region a = r) as = [] then None
                   else Some (sum_list (map score (filter (\<lambda>a. region a = r) as))
                              / real (length (filter (\<lambda>a. region a = r) as)))))
         \<and> (\<forall>k. k \<notin> range region_key \<longrightarrow> map_of (regionScores res) k = None)
         \<and> overallScore res = sum_list (map score as) / real (length as) * 100"
    by blast
next
  assume "comparePoses r u = Some res'"
  then show "angles res' \<noteq> []"
    by (auto simp: comparePoses_def aggregate_def split: if_splits)
next
  assume "comparePoses r u = Some res'"
  then show "aggregate (angles res') = Some res'"
    by (auto simp: comparePoses_def aggregate_def split: if_splits)
qed

text \<open>
  On \<open>threeAngles\<close> the left arm scores \<open>(1 + 0.5) / 2\<close>, the torso 0, the right arm has no
  entry, and the overall score is \<open>(1 + 0.5 + 0) / 3 * 100 = 50\<close>, where the mean of the
  two region means would give 37.5.
\<close>

theorem aggregate_means_witness:
  "\<exists>res. aggregate threeAngles = Some res
      \<and> map_of (regionScores res) ''leftArm'' = Some 0.75
      \<and> map_of (regionScores res) ''torso'' = Some 0
      \<and> map_of (regionScores res) ''rightArm'' = None
      \<and> overallScore res = 50"
proof -
  have "threeAngles \<noteq> []" by (simp add: threeAngles_def)
  with aggregate_means [of threeAngles] obtain res where
    agg: "aggregate threeAngles = Some res" and
    reg: "\<And>r. map_of (regionScores res) (region_key r) =
                  (if filter (\<lambda>a. region a = r) threeAngles = [] then None
                   else Some (sum_list (map score (filter (\<lambda>a. region a = r) threeAngles))
                              / real (length (filter (\<lambda>a. region a = r) threeAngles))))" and
    ov: "overallScore res = sum_list (map score threeAngles) / real (length threeAngles) * 100"
    by blast
  from reg [of leftArm] have "map_of (regionScores res) ''leftArm'' = Some 0.75"
    by (simp add: threeAngles_def)
  moreover from reg [of torso] have "map_of (regionScores res) ''torso'' = Some 0"
    by (simp add: threeAngles_def)
  moreover from reg [of rightArm] have "map_of (regionScores res) ''rightArm'' = None"
    by (simp add: threeAngles_def)
  moreover from ov have "overallScore res = 50"
    by (simp add: threeAngles_def)
  ultimately show ?thesis using agg by blast
qed


subsection \<open>Confidence gating\<close>

text \<open>A visible landmark is a landmark: the loop body reads no field of \<^verbatim>\<open>undefined\<close>.\<close>

lemma landmarkVisible_defined: "landmarkVisible lm \<Longrightarrow> \<exists>l. lm = Some l"
  by (cases lm) (simp_all add: landmarkVisible_def)

lemma fold_push_map_filter:
  "fold (\<lambda>d acc. case g d of None \<Rightarrow> acc | Some cmp \<Rightarrow> acc @ [cmp]) ds acc
   = acc @ List.map_filter g ds"
  by (induction ds arbitrary: acc) (auto split: option.splits)

lemma jointAngles_map_filter:
  "jointAngles r u = List.map_filter (compareAngle r u) ANGLE_DEFINITIONS"
  unfolding jointAngles_def by (simp add: fold_push_map_filter)

lemma compareAngle_None: "\<not> allVisible r u a b c \<Longrightarrow> compareAngle r u (n, (a, b, c), reg) = None"
  unfolding allVisible_def compareAngle.simps Let_def by (rule if_P) blast

lemma compareAngle_visible:
  "allVisible r u a b c \<Longrightarrow>
   compareAngle r u (n, (a, b, c), reg) =
     Some \<lparr>name = n,
      refAngle = calculateAngle (the (nth_opt r a)) (the (nth_opt r b)) (the (nth_opt r c)),
      userAngle = calculateAngle (the (nth_opt u a)) (the (nth_opt u b)) (the (nth_opt u c)),
      diff = \<bar>calculateAngle (the (nth_opt r a)) (the (nth_opt r b)) (the (nth_opt r c))
              - calculateAngle (the (nth_opt u a)) (the (nth_opt u b)) (the (nth_opt u c))\<bar>,
      score = scoreAngle \<bar>calculateAngle (the (nth_opt r a)) (the (nth_opt r b)) (the (nth_opt r c))
              - calculateAngle (the (nth_opt u a)) (the (nth_opt u b)) (the (nth_opt u c))\<bar>,
      region = reg\<rparr>"
  unfolding allVisible_def compareAngle.simps Let_def by simp

lemma compareAngle_Some:
  assumes "compareAngle r u (n, (a, b, c), reg) = Some cmp"
  shows "name cmp = n \<and> region cmp = reg \<and> allVisible r u a b c"
proof (cases "allVisible r u a b c")
  case False
  with assms compareAngle_None [of r u a b c n reg] show ?thesis by simp
next
  case True
  from assms compareAngle_visible [OF True, of n reg] True show ?thesis by auto
qed

text \<open>
  Every entry that the loop over the catalog pushes belongs to a catalog angle whose six
  landmarks are visible, in the reference set and in the live set.
\<close>

lemma jointAngles_gated:
  assumes "cmp \<in> set (jointAngles r u)"
  shows "\<exists>a b c. (name cmp, (a, b, c), region cmp) \<in> set ANGLE_DEFINITIONS \<and> allVisible r u a b c"
proof -
  from assms obtain d where d: "d \<in> set ANGLE_DEFINITIONS" "compareAngle r u d = Some cmp"
    by (auto simp: jointAngles_map_filter map_filter_def)
  obtain n a b c reg where "d = (n, (a, b, c), reg)" by (metis prod_cases3)
  with d compareAngle_Some [of r u n a b c reg cmp] show ?thesis by blast
qed

lemma jointAngles_hidden:
  assumes "\<And>i. \<not> landmarkVisible (nth_opt u i)"
  shows "jointAngles r u = []"
proof -
  have "compareAngle r u d = None" for d
  proof -
    obtain n a b c reg where "d = (n, (a, b, c), reg)" by (metis prod_cases3)
    moreover have "\<not> allVisible r u a b c" using assms by (simp add: allVisible_def)
    ultimately show ?thesis by (simp add: compareAngle_None)
  qed
  then show ?thesis
    by (simp add: jointAngles_map_filter map_filter_def)
qed

lemma nth_opt_append: "i < length xs \<Longrightarrow> nth_opt (xs @ ys) i = nth_opt xs i"
  by (simp add: nth_opt_def nth_append)

lemma compareAngle_cong:
  assumes "nth_opt r' a = nth_opt r a" "nth_opt r' b = nth_opt r b" "nth_opt r' c = nth_opt r c"
    "nth_opt u' a = nth_opt u a" "nth_opt u' b = nth_opt u b" "nth_opt u' c = nth_opt u c"
  shows "compareAngle r' u' (n, (a, b, c), reg) = compareAngle r u (n, (a, b, c), reg)"
  by (simp only: compareAngle.simps assms)

lemma ANGLE_DEFINITIONS_bound:
  "(n, (a, b, c), reg) \<in> set ANGLE_DEFINITIONS \<Longrightarrow> a < 33 \<and> b < 33 \<and> c < 33"
  by (auto simp: ANGLE_DEFINITIONS_def)

lemma map_filter_cong_set:
  "(\<And>d. d \<in> set ds \<Longrightarrow> f d = g d) \<Longrightarrow> List.map_filter f ds = List.map_filter g ds"
  by (induction ds) (auto split: option.splits)

lemma jointAngles_append:
  assumes "33 \<le> length r" "33 \<le> length u"
  shows "jointAngles (r @ e) (u @ e') = jointAngles r u"
proof -
  have "compareAngle (r @ e) (u @ e') d = compareAngle r u d" if "d \<in> set ANGLE_DEFINITIONS" for d
  proof -
    obtain n a b c reg where d: "d = (n, (a, b, c), reg)" by (metis prod_cases3)
    with that ANGLE_DEFINITIONS_bound have "a < 33 \<and> b < 33 \<and> c < 33" by blast
    with assms show ?thesis unfolding d
      by (intro compareAngle_cong nth_opt_append) simp_all
  qed
  then show ?thesis
    unfolding jointAngles_map_filter by (rule map_filter_cong_set)
qed

lemma calculateTorsoLean_append:
  "33 \<le> length r \<Longrightarrow> calculateTorsoLean (r @ e) = calculateTorsoLean r"
  by (simp add: calculateTorsoLean_def nth_opt_append)

lemma torsoLean_append:
  "33 \<le> length r \<Longrightarrow> 33 \<le> length u \<Longrightarrow> torsoLean (r @ e) (u @ e') = torsoLean r u"
  by (simp add: torsoLean_def calculateTorsoLean_append)

lemma comparePoses_append:
  "33 \<le> length r \<Longrightarrow> 33 \<le> length u \<Longrightarrow> comparePoses (r @ e) (u @ e') = comparePoses r u"
  by (simp add: comparePoses_def jointAngles_append torsoLean_append)

lemma hidden_set:
  assumes "\<And>l. l \<in> set u \<Longrightarrow> \<not> MIN_VISIBILITY \<le> nullish (visibility l) 0"
  shows "\<not> landmarkVisible (nth_opt u i)"
  using assms by (simp add: landmarkVisible_def nth_opt_def)

text \<open>The example sets.\<close>

lemma uprightPose_length: "length (uprightPose v) = 33"
  by (simp add: uprightPose_def)

lemma uprightPose_nth:
  "i < 23 \<Longrightarrow> nth_opt (uprightPose v) i = Some \<lparr>x = 0.5, y = 0.3, z = Some 0, visibility = v\<rparr>"
  "23 \<le> i \<Longrightarrow> i < 33 \<Longrightarrow> nth_opt (uprightPose v) i = Some \<lparr>x = 0.5, y = 0.6, z = Some 0, visibility = v\<rparr>"
  by (simp_all add: uprightPose_def nth_opt_def nth_append)

lemma uprightPose_lean: "calculateTorsoLean (uprightPose v) = 0"
  by (simp add: calculateTorsoLean_def uprightPose_nth atan2_def)

lemma torsoLean_upright: "torsoLean (uprightPose v) (uprightPose w) = uprightTorso"
  by (simp add: torsoLean_def uprightPose_lean scoreAngle_def uprightTorso_def)

lemma uprightPose_hidden:
  "\<not> MIN_VISIBILITY \<le> nullish v 0 \<Longrightarrow> \<not> landmarkVisible (nth_opt (uprightPose v) i)"
  by (rule hidden_set) (auto simp: uprightPose_def)

lemma aggregate_torso_only:
  "aggregate [uprightTorso] =
     Some \<lparr>angles = [uprightTorso], overallScore = 100, regionScores = [(''torso'', 1)]\<rparr>"
  by (simp add: aggregate_def regionScoresOf_def regionBucketsOf_def pushScore_def uprightTorso_def)

lemma comparePoses_hidden_user:
  assumes "\<not> MIN_VISIBILITY \<le> nullish w 0"
  shows "comparePoses (uprightPose v) (uprightPose w) =
     Some \<lparr>angles = [uprightTorso], overallScore = 100, regionScores = [(''torso'', 1)]\<rparr>"
proof -
  have "jointAngles (uprightPose v) (uprightPose w) = []"
    by (rule jointAngles_hidden) (rule uprightPose_hidden [OF assms])
  then show ?thesis
    by (simp add: comparePoses_def uprightPose_length torsoLean_upright aggregate_torso_only)
qed

text \<open>
  Claim C2, at an input where the code departs from it. The reference set is fully
  visible, every landmark of the live set has visibility 0.2. The eight catalog angles
  are skipped, but the result still holds the entry ``Torso Lean'', with score 1, although
  the live shoulders (11, 12) and hips (23, 24) that it is computed from are below 0.5.
\<close>

theorem torso_lean_not_gated:
  "comparePoses (uprightPose (Some 1)) (uprightPose (Some 0.2)) =
     Some \<lparr>angles = [uprightTorso], overallScore = 100, regionScores = [(''torso'', 1)]\<rparr>
   \<and> name uprightTorso = ''Torso Lean''
   \<and> \<not> landmarkVisible (nth_opt (uprightPose (Some 0.2)) 11)
   \<and> \<not> landmarkVisible (nth_opt (uprightPose (Some 0.2)) 12)
   \<and> \<not> landmarkVisible (nth_opt (uprightPose (Some 0.2)) 23)
   \<and> \<not> landmarkVisible (nth_opt (uprightPose (Some 0.2)) 24)"
proof -
  have low: "\<not> MIN_VISIBILITY \<le> nullish (Some 0.2) 0"
    by (simp add: MIN_VISIBILITY_def nullish_def)
  show ?thesis
    by (simp only: comparePoses_hidden_user [OF low] uprightPose_hidden [OF low] simp_thms)
       (simp add: uprightTorso_def)
qed

text \<open>
  Claim C3, at an input where the code departs from it. Every landmark of both sets has
  visibility 0, so no landmark is visible and the loop over the catalog pushes nothing;
  \<open>comparePoses\<close> still returns a result, with the torso-lean entry alone and the overall
  score 100. The test \<^verbatim>\<open>angles.length === 0\<close> comes after the unconditional push and never
  holds.
\<close>

theorem all_gated_still_scored:
  "list_all (\<lambda>l. \<not> landmarkVisible (Some l)) (uprightPose (Some 0))
   \<and> jointAngles (uprightPose (Some 0)) (uprightPose (Some 0)) = []
   \<and> comparePoses (uprightPose (Some 0)) (uprightPose (Some 0)) =
       Some \<lparr>angles = [uprightTorso], overallScore = 100, regionScores = [(''torso'', 1)]\<rparr>"
proof -
  have low: "\<not> MIN_VISIBILITY \<le> nullish (Some 0) 0"
    by (simp add: MIN_VISIBILITY_def nullish_def)
  have "list_all (\<lambda>l. \<not> landmarkVisible (Some l)) (uprightPose (Some 0))"
    by (simp add: uprightPose_def landmarkVisible_def MIN_VISIBILITY_def nullish_def
        list_all_iff)
  moreover have "jointAngles (uprightPose (Some 0)) (uprightPose (Some 0)) = []"
    by (rule jointAngles_hidden) (rule uprightPose_hidden [OF low])
  ultimately show ?thesis
    by (simp only: comparePoses_hidden_user [OF low] simp_thms)
qed

subsection \<open>The length guard\<close>

lemma calculateAngle_coincident: "a = b \<or> c = b \<Longrightarrow> calculateAngle a b c = 0"
  by (auto simp: calculateAngle_def ray_def Let_def)

lemma upright_visible: "i < 33 \<Longrightarrow> landmarkVisible (nth_opt (uprightPose (Some 1)) i)"
  by (cases "i < 23")
    (simp_all add: uprightPose_nth landmarkVisible_def MIN_VISIBILITY_def nullish_def)

lemma upright_same:
  "i < 23 \<Longrightarrow> j < 23 \<Longrightarrow> the (nth_opt (uprightPose v) i) = the (nth_opt (uprightPose v) j)"
  "23 \<le> i \<Longrightarrow> i < 33 \<Longrightarrow> 23 \<le> j \<Longrightarrow> j < 33 \<Longrightarrow>
     the (nth_opt (uprightPose v) i) = the (nth_opt (uprightPose v) j)"
  by (simp_all add: uprightPose_nth)

lemma compareAngle_upright:
  assumes "a < 33" "b < 33" "c < 33"
    and "the (nth_opt (uprightPose (Some 1)) a) = the (nth_opt (uprightPose (Some 1)) b)
         \<or> the (nth_opt (uprightPose (Some 1)) c) = the (nth_opt (uprightPose (Some 1)) b)"
  shows "compareAngle (uprightPose (Some 1)) (uprightPose (Some 1)) (n, (a, b, c), reg)
         = Some (matched n reg)"
proof -
  have "allVisible (uprightPose (Some 1)) (uprightPose (Some 1)) a b c"
    using assms(1-3) by (simp add: allVisible_def upright_visible)
  then show ?thesis
    using assms(4)
    by (simp add: compareAngle_visible calculateAngle_coincident matched_def scoreAngle_def)
qed

lemma jointAngles_upright:
  "jointAngles (uprightPose (Some 1)) (uprightPose (Some 1)) =
     [matched ''Left Elbow'' leftArm, matched ''Right Elbow'' rightArm,
      matched ''Left Shoulder'' leftArm, matched ''Right Shoulder'' rightArm,
      matched ''Left Knee'' leftLeg, matched ''Right Knee'' rightLeg,
      matched ''Left Hip'' leftLeg, matched ''Right Hip'' rightLeg]"
  by (simp add: jointAngles_def ANGLE_DEFINITIONS_def compareAngle_upright upright_same)

lemma comparePoses_upright:
  "comparePoses (uprightPose (Some 1)) (uprightPose (Some 1)) = Some uprightResult"
  by (simp add: comparePoses_def uprightPose_length jointAngles_upright torsoLean_upright
      aggregate_def regionScoresOf_def regionBucketsOf_def pushScore_def matched_def
      uprightTorso_def uprightResult_def)

lemma allVisible_reads:
  "allVisible r u a b c \<Longrightarrow>
     (\<exists>ra rb rc ua ub uc. nth_opt r a = Some ra \<and> nth_opt r b = Some rb \<and> nth_opt r c = Some rc
        \<and> nth_opt u a = Some ua \<and> nth_opt u b = Some ub \<and> nth_opt u c = Some uc)"
  unfolding allVisible_def by (meson landmarkVisible_defined)

text \<open>
  Claim C4, as the code has it. \<open>comparePoses\<close> gives no result when one of the two sets
  has fewer than 33 landmarks: a short or empty set is rejected, not padded. A set of more
  than 33 landmarks is not rejected for its length: it is compared as its first 33
  landmarks, and the landmarks from index 33 on are ignored. No read fails: an angle
  whose six landmarks are not all visible is skipped, and when they are all visible each
  of the six reads is a landmark, so the fields of a landmark are read from landmarks
  only.
\<close>

theorem comparePoses_length_guard:
  "(length r < 33 \<or> length u < 33 \<longrightarrow> comparePoses r u = None)
   \<and> (33 \<le> length r \<and> 33 \<le> length u \<longrightarrow> comparePoses (r @ e) (u @ e') = comparePoses r u)
   \<and> (\<not> allVisible r u a b c \<longrightarrow> compareAngle r u (n, (a, b, c), reg) = None)
   \<and> (allVisible r u a b c \<longrightarrow>
        (\<exists>ra rb rc ua ub uc. nth_opt r a = Some ra \<and> nth_opt r b = Some rb \<and> nth_opt r c = Some rc
           \<and> nth_opt u a = Some ua \<and> nth_opt u b = Some ub \<and> nth_opt u c = Some uc))"
  using comparePoses_None_iff [of r u] comparePoses_append [of r u e e']
    compareAngle_None [of r u a b c n reg] allVisible_reads [of r u a b c]
  by blast

text \<open>
  A set of 32 landmarks and the empty set are rejected; sets of 34 and 35 landmarks give
  the result of their first 33; against an empty reference set the left elbow is skipped;
  in the fully visible upright set the read of landmark 11 is a landmark.
\<close>

theorem comparePoses_length_guard_witness:
  "comparePoses (take 32 (uprightPose (Some 1))) (uprightPose (Some 1)) = None
   \<and> comparePoses (uprightPose (Some 1)) [] = None
   \<and> comparePoses (uprightPose (Some 1) @ [extraLandmark])
        (uprightPose (Some 1) @ [extraLandmark, extraLandmark])
       = comparePoses (uprightPose (Some 1)) (uprightPose (Some 1))
   \<and> compareAngle [] (uprightPose (Some 1)) (''Left Elbow'', (11, 13, 15), leftArm) = None
   \<and> (\<exists>ra. nth_opt (uprightPose (Some 1)) 11 = Some ra)"
proof -
  have hidden: "\<not> allVisible [] (uprightPose (Some 1)) 11 13 15"
    by (simp add: allVisible_def landmarkVisible_def nth_opt_def)
  have seen: "allVisible (uprightPose (Some 1)) (uprightPose (Some 1)) 11 13 15"
    by (simp add: allVisible_def upright_visible)
  from comparePoses_length_guard [of "uprightPose (Some 1)" "uprightPose (Some 1)" _ _ 11 13 15] seen
  have "\<exists>ra. nth_opt (uprightPose (Some 1)) 11 = Some ra"
    by blast
  with hidden
    comparePoses_length_guard [of "take 32 (uprightPose (Some 1))" "uprightPose (Some 1)"]
    comparePoses_length_guard [of "uprightPose (Some 1)" "[]"]
    comparePoses_length_guard [of "uprightPose (Some 1)" "uprightPose (Some 1)" "[extraLandmark]"
      "[extraLandmark, extraLandmark]"]
    comparePoses_length_guard [of "[]" "uprightPose (Some 1)" _ _ 11 13 15 "''Left Elbow''" leftArm]
  show ?thesis
    by (simp add: uprightPose_length)
qed

text \<open>
  A length other than 33 that is not rejected: two fully visible sets of 34 landmarks are
  compared, and the result holds the eight catalog angles and the torso lean.
\<close>

theorem longer_set_accepted:
  "length (uprightPose (Some 1) @ [extraLandmark]) = 34
   \<and> comparePoses (uprightPose (Some 1) @ [extraLandmark]) (uprightPose (Some 1) @ [extraLandmark])
       = Some uprightResult"
proof -
  have "comparePoses (uprightPose (Some 1) @ [extraLandmark]) (uprightPose (Some 1) @ [extraLandmark])
        = comparePoses (uprightPose (Some 1)) (uprightPose (Some 1))"
    by (rule comparePoses_append) (simp_all add: uprightPose_length)
  then show ?thesis
    by (simp add: comparePoses_upright uprightPose_length)
qed

subsection \<open>The torso lean is always there\<close>

text \<open>
  Claim C10. When both sets have at least 33 landmarks, whatever their visibilities,
  \<open>comparePoses\<close> returns a result; its list of angles is the gated catalog angles followed
  by the torso-lean entry, named ``Torso Lean'' in the region \<open>torso\<close>, so the list is not
  empty, and \<open>regionScores\<close> has the key \<open>torso\<close>. No result can only come from a set of
  fewer than 33 landmarks.
\<close>

theorem torso_always_present:
  "(33 \<le> length r \<and> 33 \<le> length u \<longrightarrow>
      (\<exists>res. comparePoses r u = Some res
           \<and> angles res = jointAngles r u @ [torsoLean r u]
           \<and> name (torsoLean r u) = ''Torso Lean'' \<and> region (torsoLean r u) = torso
           \<and> angles res \<noteq> []
           \<and> map_of (regionScores res) ''torso'' \<noteq> None))
   \<and> (comparePoses r u = None \<longrightarrow> length r < 33 \<or> length u < 33)"
proof (intro conjI impI)
  assume len: "33 \<le> length r \<and> 33 \<le> length u"
  let ?as = "jointAngles r u @ [torsoLean r u]"
  have "filter (\<lambda>a. region_key (region a) = ''torso'') ?as \<noteq> []"
    by (simp add: torsoLean_fields)
  then have "map_of (regionScoresOf (regionBucketsOf ?as)) ''torso'' \<noteq> None"
    by (simp only: regionScores_map_of if_False) simp
  with len comparePoses_Some [of r u] torsoLean_fields [of r u]
  show "\<exists>res. comparePoses r u = Some res
           \<and> angles res = jointAngles r u @ [torsoLean r u]
           \<and> name (torsoLean r u) = ''Torso Lean'' \<and> region (torsoLean r u) = torso
           \<and> angles res \<noteq> []
           \<and> map_of (regionScores res) ''torso'' \<noteq> None"
    by auto
next
  assume "comparePoses r u = None"
  then show "length r < 33 \<or> length u < 33" by (simp add: comparePoses_None_iff)
qed

text \<open>Two upright sets without any visibility value: the result ends with the torso lean.\<close>

theorem torso_always_present_witness:
  "\<exists>res. comparePoses (uprightPose None) (uprightPose None) = Some res
      \<and> last (angles res) = torsoLean (uprightPose None) (uprightPose None)
      \<and> name (last (angles res)) = ''Torso Lean''
      \<and> map_of (regionScores res) ''torso'' \<noteq> None"
  using torso_always_present [of "uprightPose None" "uprightPose None"]
  by (auto simp: uprightPose_length)

subsection \<open>The positional smoother\<close>

lemma smooth_first:
  "previous s = None \<or> (\<exists>p. previous s = Some p \<and> length p \<noteq> length lms) \<Longrightarrow>
   smooth s lms = (lms, s\<lparr>previous := Some lms\<rparr>)"
  by (auto simp: smooth_def)

lemma map_zip_upt:
  "map (\<lambda>(lm, i). f lm i) (zip lms [0 ..< length lms]) = map (\<lambda>i. f (lms ! i) i) [0 ..< length lms]"
  by (rule nth_equalityI) simp_all

lemma smooth_blend:
  assumes "previous s = Some p" "length p = length lms"
  shows "smooth s lms =
     (map (\<lambda>i. \<lparr>x = LandmarkSmoother.alpha s * x (lms ! i) + (1 - LandmarkSmoother.alpha s) * x (p ! i),
                  y = LandmarkSmoother.alpha s * y (lms ! i) + (1 - LandmarkSmoother.alpha s) * y (p ! i),
                  z = lerp_opt (LandmarkSmoother.alpha s) (z (lms ! i)) (z (p ! i)),
                  visibility = visibility (lms ! i)\<rparr>) [0 ..< length lms],
      s\<lparr>previous := Some
         (map (\<lambda>i. \<lparr>x = LandmarkSmoother.alpha s * x (lms ! i) + (1 - LandmarkSmoother.alpha s) * x (p ! i),
                  y = LandmarkSmoother.alpha s * y (lms ! i) + (1 - LandmarkSmoother.alpha s) * y (p ! i),
                  z = lerp_opt (LandmarkSmoother.alpha s) (z (lms ! i)) (z (p ! i)),
                  visibility = visibility (lms ! i)\<rparr>) [0 ..< length lms])\<rparr>)"
  using assms by (simp add: smooth_def Let_def map_zip_upt)

text \<open>
  Claim C6. On a first call (nothing stored, as on a new smoother or after \<open>reset\<close>) and on
  a call whose set has another length than the stored one, \<open>smooth\<close> returns the raw set
  as it is and stores it. On any other call it returns a set of the same length in which
  \<open>x\<close>, \<open>y\<close> and \<open>z\<close> of each point are \<open>\<alpha> * raw + (1 - \<alpha>) * previous\<close> and the
  visibility is that of the raw point, and stores that set. \<open>reset\<close> clears what is stored
  and keeps \<open>\<alpha>\<close>, so the next call is a first call.
\<close>

theorem smooth_cases:
  "(previous s = None \<or> (\<exists>q. previous s = Some q \<and> length q \<noteq> length lms) \<longrightarrow>
      smooth s lms = (lms, s\<lparr>previous := Some lms\<rparr>))
   \<and> (previous s = Some p \<and> length p = length lms \<longrightarrow>
        (\<exists>sm. smooth s lms = (sm, s\<lparr>previous := Some sm\<rparr>) \<and> length sm = length lms
           \<and> (\<forall>i < length lms.
                 x (sm ! i) = LandmarkSmoother.alpha s * x (lms ! i) + (1 - LandmarkSmoother.alpha s) * x (p ! i)
               \<and> y (sm ! i) = LandmarkSmoother.alpha s * y (lms ! i) + (1 - LandmarkSmoother.alpha s) * y (p ! i)
               \<and> (\<forall>v w. z (lms ! i) = Some v \<and> z (p ! i) = Some w \<longrightarrow>
                     z (sm ! i) = Some (LandmarkSmoother.alpha s * v + (1 - LandmarkSmoother.alpha s) * w))
               \<and> visibility (sm ! i) = visibility (lms ! i))))
   \<and> smooth (newLandmarkSmoother a) lms = (lms, (newLandmarkSmoother a)\<lparr>previous := Some lms\<rparr>)
   \<and> previous (reset s) = None \<and> LandmarkSmoother.alpha (reset s) = LandmarkSmoother.alpha s
   \<and> smooth (reset s) lms = (lms, s\<lparr>previous := Some lms\<rparr>)"
proof (intro conjI impI)
  assume "previous s = None \<or> (\<exists>q. previous s = Some q \<and> length q \<noteq> length lms)"
  then show "smooth s lms = (lms, s\<lparr>previous := Some lms\<rparr>)" by (rule smooth_first)
next
  assume a: "previous s = Some p \<and> length p = length lms"
  let ?sm = "map (\<lambda>i. \<lparr>x = LandmarkSmoother.alpha s * x (lms ! i) + (1 - LandmarkSmoother.alpha s) * x (p ! i),
                  y = LandmarkSmoother.alpha s * y (lms ! i) + (1 - LandmarkSmoother.alpha s) * y (p ! i),
                  z = lerp_opt (LandmarkSmoother.alpha s) (z (lms ! i)) (z (p ! i)),
                  visibility = visibility (lms ! i)\<rparr>) [0 ..< length lms]"
  from a have "smooth s lms = (?sm, s\<lparr>previous := Some ?sm\<rparr>)"
    by (simp add: smooth_blend)
  moreover have "length ?sm = length lms" by simp
  moreover have "\<forall>i < length lms.
                 x (?sm ! i) = LandmarkSmoother.alpha s * x (lms ! i) + (1 - LandmarkSmoother.alpha s) * x (p ! i)
               \<and> y (?sm ! i) = LandmarkSmoother.alpha s * y (lms ! i) + (1 - LandmarkSmoother.alpha s) * y (p ! i)
               \<and> (\<forall>v w. z (lms ! i) = Some v \<and> z (p ! i) = Some w \<longrightarrow>
                     z (?sm ! i) = Some (LandmarkSmoother.alpha s * v + (1 - LandmarkSmoother.alpha s) * w))
               \<and> visibility (?sm ! i) = visibility (lms ! i)"
    by simp
  ultimately show "\<exists>sm. smooth s lms = (sm, s\<lparr>previous := Some sm\<rparr>) \<and> length sm = length lms
           \<and> (\<forall>i < length lms.
                 x (sm ! i) = LandmarkSmoother.alpha s * x (lms ! i) + (1 - LandmarkSmoother.alpha s) * x (p ! i)
               \<and> y (sm ! i) = LandmarkSmoother.alpha s * y (lms ! i) + (1 - LandmarkSmoother.alpha s) * y (p ! i)
               \<and> (\<forall>v w. z (lms ! i) = Some v \<and> z (p ! i) = Some w \<longrightarrow>
                     z (sm ! i) = Some (LandmarkSmoother.alpha s * v + (1 - LandmarkSmoother.alpha s) * w))
               \<and> visibility (sm ! i) = visibility (lms ! i))"
    by blast
qed (simp_all add: reset_def smooth_def newLandmarkSmoother_def)

text \<open>
  With \<open>\<alpha> = 0.5\<close>: the first call returns \<open>pointB\<close> as it is; a call on \<open>pointB\<close> with
  \<open>pointA\<close> stored gives the midpoint \<open>(0.5, 1, 2)\<close> with the visibility of \<open>pointB\<close>; a call
  with two points stored returns the raw set.
\<close>

theorem smooth_cases_witness:
  "smooth (newLandmarkSmoother (Some 0.5)) [pointB]
     = ([pointB], (newLandmarkSmoother (Some 0.5))\<lparr>previous := Some [pointB]\<rparr>)
   \<and> smooth ((newLandmarkSmoother (Some 0.5))\<lparr>previous := Some [pointA, pointA]\<rparr>) [pointB]
     = ([pointB], (newLandmarkSmoother (Some 0.5))\<lparr>previous := Some [pointB]\<rparr>)
   \<and> fst (smooth ((newLandmarkSmoother (Some 0.5))\<lparr>previous := Some [pointA]\<rparr>) [pointB])
     = [\<lparr>x = 0.5, y = 1, z = Some 2, visibility = Some 0.9\<rparr>]"
proof -
  let ?s = "newLandmarkSmoother (Some 0.5)"
  have al: "previous ?s = None"
    by (simp add: newLandmarkSmoother_def)
  have first: "smooth ?s [pointB] = ([pointB], ?s\<lparr>previous := Some [pointB]\<rparr>)"
    using smooth_cases [of ?s "[pointB]"] al by simp
  have other: "smooth (?s\<lparr>previous := Some [pointA, pointA]\<rparr>) [pointB]
     = ([pointB], ?s\<lparr>previous := Some [pointB]\<rparr>)"
    using smooth_cases [of "?s\<lparr>previous := Some [pointA, pointA]\<rparr>" "[pointB]"] by simp
  let ?t = "?s\<lparr>previous := Some [pointA]\<rparr>"
  have pre: "previous ?t = Some [pointA] \<and> length [pointA] = length [pointB]" by simp
  with smooth_cases [of ?t "[pointB]" "[pointA]"] obtain sm where
    sm1: "smooth ?t [pointB] = (sm, ?t\<lparr>previous := Some sm\<rparr>)" and
    sm2: "length sm = length [pointB]" and
    sm3: "\<forall>i < length [pointB].
            x (sm ! i) = LandmarkSmoother.alpha ?t * x ([pointB] ! i) + (1 - LandmarkSmoother.alpha ?t) * x ([pointA] ! i)
          \<and> y (sm ! i) = LandmarkSmoother.alpha ?t * y ([pointB] ! i) + (1 - LandmarkSmoother.alpha ?t) * y ([pointA] ! i)
          \<and> (\<forall>v w. z ([pointB] ! i) = Some v \<and> z ([pointA] ! i) = Some w \<longrightarrow>
                z (sm ! i) = Some (LandmarkSmoother.alpha ?t * v + (1 - LandmarkSmoother.alpha ?t) * w))
          \<and> visibility (sm ! i) = visibility ([pointB] ! i)"
    by blast
  from sm3 have "x (sm ! 0) = 0.5" "y (sm ! 0) = 1" "z (sm ! 0) = Some 2" "visibility (sm ! 0) = Some 0.9"
    by (simp_all add: newLandmarkSmoother_def nullish_def pointA_def pointB_def)
  then have "sm ! 0 = \<lparr>x = 0.5, y = 1, z = Some 2, visibility = Some 0.9\<rparr>"
    by simp
  with sm2 have "sm = [\<lparr>x = 0.5, y = 1, z = Some 2, visibility = Some 0.9\<rparr>]"
    by (cases sm) simp_all
  with sm1 first other show ?thesis by simp
qed

subsection \<open>The score smoother\<close>

lemma fold_blendKey_map_of:
  "distinct ks \<Longrightarrow>
   map_of (fold (blendKey al inc) ks sm) k =
     (if k \<in> set ks
      then Some (al * the (map_of inc k) + (1 - al) * nullish (map_of sm k) (the (map_of inc k)))
      else map_of sm k)"
proof (induction ks arbitrary: sm)
  case Nil
  then show ?case by simp
next
  case (Cons a ks)
  then show ?case
    by (auto simp: blendKey_def Let_def update_conv')
qed

text \<open>
  Claim C7. In the primed state, for incoming region scores with each key once: a key of
  the incoming scores gets \<open>\<alpha> * incoming + (1 - \<alpha>) * previous\<close>, where the previous value
  is the stored one, or the incoming value itself when the key is not stored, so that a
  new key gets its incoming value; a key that is not incoming keeps what is stored for it
  (its last value, or no entry); the overall score is
  \<open>\<alpha> * incoming + (1 - \<alpha>) * previous\<close>. What is returned is what is stored, and the
  smoother stays primed.
\<close>

theorem update_primed:
  assumes "hasData s" "distinct (map fst incoming)"
  shows "\<exists>res s'. update s incoming ov = (res, s')
      \<and> (\<forall>k v. map_of incoming k = Some v \<longrightarrow>
            map_of (regions res) k =
              Some (alpha s * v + (1 - alpha s) * (case map_of (smoothedRegions s) k of None \<Rightarrow> v | Some p \<Rightarrow> p)))
      \<and> (\<forall>k v. map_of incoming k = Some v \<and> map_of (smoothedRegions s) k = None \<longrightarrow>
            map_of (regions res) k = Some v)
      \<and> (\<forall>k. map_of incoming k = None \<longrightarrow> map_of (regions res) k = map_of (smoothedRegions s) k)
      \<and> overall res = alpha s * ov + (1 - alpha s) * smoothedOverall s
      \<and> smoothedRegions s' = regions res \<and> smoothedOverall s' = overall res \<and> hasData s'
      \<and> alpha s' = alpha s"
proof -
  let ?sr = "fold (blendKey (alpha s) incoming) (map fst incoming) (smoothedRegions s)"
  let ?s' = "s\<lparr>smoothedRegions := ?sr,
     smoothedOverall := alpha s * ov + (1 - alpha s) * smoothedOverall s\<rparr>"
  let ?res = "\<lparr>regions = ?sr, overall = alpha s * ov + (1 - alpha s) * smoothedOverall s\<rparr>"
  have u: "update s incoming ov = (?res, ?s')"
    using assms(1) by (simp add: update_def Let_def)
  have m: "map_of ?sr k =
     (if k \<in> fst ` set incoming
      then Some (alpha s * the (map_of incoming k)
                 + (1 - alpha s) * nullish (map_of (smoothedRegions s) k) (the (map_of incoming k)))
      else map_of (smoothedRegions s) k)" for k
    using fold_blendKey_map_of [OF assms(2), of "alpha s" incoming "smoothedRegions s" k] by simp
  have present: "map_of incoming k = Some v \<longrightarrow>
            map_of (regions ?res) k =
              Some (alpha s * v + (1 - alpha s) * (case map_of (smoothedRegions s) k of None \<Rightarrow> v | Some p \<Rightarrow> p))" for k v
  proof
    assume kv: "map_of incoming k = Some v"
    then have "k \<in> fst ` set incoming" by (auto dest: map_of_SomeD intro: rev_image_eqI)
    with kv show "map_of (regions ?res) k =
              Some (alpha s * v + (1 - alpha s) * (case map_of (smoothedRegions s) k of None \<Rightarrow> v | Some p \<Rightarrow> p))"
      by (simp add: m nullish_def)
  qed
  have fresh: "map_of incoming k = Some v \<and> map_of (smoothedRegions s) k = None \<longrightarrow>
            map_of (regions ?res) k = Some v" for k v
    using present [of k v] by (auto simp: algebra_simps)
  have absent: "map_of incoming k = None \<longrightarrow> map_of (regions ?res) k = map_of (smoothedRegions s) k" for k
    by (simp add: m map_of_eq_None_iff)
  have rest: "overall ?res = alpha s * ov + (1 - alpha s) * smoothedOverall s"
    "smoothedRegions ?s' = regions ?res" "smoothedOverall ?s' = overall ?res" "hasData ?s'"
    "alpha ?s' = alpha s"
    using assms(1) by simp_all
  from u present fresh absent rest show ?thesis by blast
qed

text \<open>
  On \<open>primedSmoother\<close> with the incoming scores torso 0 and left leg 0.25 and the overall
  score 40: the torso goes from 1 to 0.5, the left leg is new and gets 0.25, the left arm
  is not incoming and stays at 0.5, the overall score goes from 80 to 60.
\<close>

theorem update_primed_witness:
  "\<exists>res s'. update primedSmoother [(''torso'', 0), (''leftLeg'', 0.25)] 40 = (res, s')
      \<and> map_of (regions res) ''torso'' = Some 0.5
      \<and> map_of (regions res) ''leftLeg'' = Some 0.25
      \<and> map_of (regions res) ''leftArm'' = Some 0.5
      \<and> overall res = 60 \<and> hasData s'"
proof -
  let ?inc = "[(''torso'', 0), (''leftLeg'', 0.25 :: real)]"
  have pre: "hasData primedSmoother" "distinct (map fst ?inc)"
    by (simp_all add: primedSmoother_def)
  from update_primed [OF pre, of 40] obtain res s' where
    u: "update primedSmoother ?inc 40 = (res, s')" and
    present: "\<And>k v. map_of ?inc k = Some v \<Longrightarrow>
            map_of (regions res) k =
              Some (alpha primedSmoother * v + (1 - alpha primedSmoother) *
                 (case map_of (smoothedRegions primedSmoother) k of None \<Rightarrow> v | Some p \<Rightarrow> p))" and
    absent: "\<And>k. map_of ?inc k = None \<Longrightarrow>
            map_of (regions res) k = map_of (smoothedRegions primedSmoother) k" and
    ov: "overall res = alpha primedSmoother * 40 + (1 - alpha primedSmoother) * smoothedOverall primedSmoother" and
    hd: "hasData s'"
    by blast
  from present [of "''torso''" 0] have "map_of (regions res) ''torso'' = Some 0.5"
    by (simp add: primedSmoother_def)
  moreover from present [of "''leftLeg''" "0.25"] have "map_of (regions res) ''leftLeg'' = Some 0.25"
    by (simp add: primedSmoother_def)
  moreover from absent [of "''leftArm''"] have "map_of (regions res) ''leftArm'' = Some 0.5"
    by (simp add: primedSmoother_def)
  moreover from ov have "overall res = 60"
    by (simp add: primedSmoother_def)
  ultimately show ?thesis using u hd by blast
qed

text \<open>
  Claim C8. The first \<open>update\<close> of a new score smoother returns the incoming region scores
  and overall score as they are, and stores them. \<open>reset\<close> gives back the state of a new
  smoother with the same \<open>\<alpha>\<close>, whatever was stored, so an \<open>update\<close> after a \<open>reset\<close> is
  the first \<open>update\<close> of a new smoother and returns its inputs as they are.
\<close>

theorem update_first:
  "update (newScoreSmoother a) incoming ov =
     (\<lparr>regions = incoming, overall = ov\<rparr>,
      \<lparr>smoothedRegions = incoming, smoothedOverall = ov, hasData = True, alpha = nullish a 0.12\<rparr>)
   \<and> resetScores s = newScoreSmoother (Some (alpha s))
   \<and> update (resetScores s) incoming ov = update (newScoreSmoother (Some (alpha s))) incoming ov
   \<and> fst (update (resetScores s) incoming ov) = \<lparr>regions = incoming, overall = ov\<rparr>
   \<and> fst (update (resetScores (snd (update s earlier earlierOverall))) incoming ov)
       = \<lparr>regions = incoming, overall = ov\<rparr>"
  by (simp add: update_def newScoreSmoother_def resetScores_def Let_def nullish_def)

text \<open>
  After an update and a reset of \<open>primedSmoother\<close>, an update returns its inputs, with
  nothing left of the torso and the left arm that were stored.
\<close>

theorem update_first_witness:
  "fst (update (resetScores (snd (update primedSmoother [(''torso'', 0)] 40))) [(''leftLeg'', 0.25)] 10)
     = \<lparr>regions = [(''leftLeg'', 0.25)], overall = 10\<rparr>
   \<and> fst (update (newScoreSmoother None) [(''torso'', 1)] 100) = \<lparr>regions = [(''torso'', 1)], overall = 100\<rparr>"
  using update_first [of None "[(''torso'', 1)]" 100 primedSmoother "[(''torso'', 0)]" 40]
    update_first [of None "[(''leftLeg'', 0.25)]" 10 primedSmoother "[(''torso'', 0)]" 40]
  by simp

end
